theory Spec2Isabelle
  imports Complex_Main "HOL-Library.Sublist"
begin

section \<open>Data model\<close>

text \<open>
  Python exceptions that the modelled code can raise or has to absorb.
\<close>

datatype exn = KeyError | ValueError | AttributeError | OtherError

text \<open>
  A naive or offset-aware \<^verbatim>\<open>datetime.datetime\<close>. The offset, when present, is
  in minutes east of UTC.
\<close>

record datetime =
  year :: nat
  month :: nat
  day :: nat
  hour :: nat
  minute :: nat
  second :: nat
  microsecond :: nat
  utcoffset :: "int option"

text \<open>
  The value stored under the key \<^verbatim>\<open>'timestamp'\<close> of a message dict is either a
  \<^verbatim>\<open>datetime\<close> or a \<^verbatim>\<open>str\<close>.
\<close>

datatype ts_value = TsDatetime datetime | TsString string

text \<open>
  A message is a Python dict; every key may be absent, which is the value \<open>None\<close> of
  the field. The key \<^verbatim>\<open>'text'\<close> is the field \<open>msg_text\<close>.
\<close>

record message =
  username :: "string option"
  timestamp :: "ts_value option"
  timestamp_str :: "string option"
  msg_text :: "string option"
  file_source :: "string option"
  message_id :: "string option"
  raw_line :: "string option"
  pattern_used :: "int option"
  line_number :: "nat option"

text \<open>
  Library functions the code calls and that live outside the repository:
  \<^verbatim>\<open>hashlib.md5(...).hexdigest()\<close> and \<^verbatim>\<open>dateutil.parser.parse\<close> (\<open>None\<close> when it
  raises). They are parameters of the model.
\<close>

record libs =
  md5_hexdigest :: "string \<Rightarrow> string"
  parse_date :: "string \<Rightarrow> datetime option"

section \<open>String helpers of the Python runtime\<close>

definition digit_char :: "nat \<Rightarrow> char" where
  "digit_char n = ''0123456789'' ! (n mod 10)"

definition pad2 :: "nat \<Rightarrow> string" where
  "pad2 n = [digit_char (n div 10), digit_char n]"

definition pad4 :: "nat \<Rightarrow> string" where
  "pad4 n = [digit_char (n div 1000), digit_char (n div 100), digit_char (n div 10), digit_char n]"

definition pad6 :: "nat \<Rightarrow> string" where
  "pad6 n = [digit_char (n div 100000), digit_char (n div 10000), digit_char (n div 1000),
             digit_char (n div 100), digit_char (n div 10), digit_char n]"

text \<open>
  \<^verbatim>\<open>datetime.isoformat()\<close>: \<^verbatim>\<open>YYYY-MM-DDTHH:MM:SS\<close>, then \<^verbatim>\<open>.ffffff\<close> when the
  microsecond is not zero, then \<^verbatim>\<open>+HH:MM\<close> for an aware value.
\<close>

definition isoformat :: "datetime \<Rightarrow> string" where
  "isoformat d =
     pad4 (year d) @ ''-'' @ pad2 (month d) @ ''-'' @ pad2 (day d) @ ''T'' @
     pad2 (hour d) @ '':'' @ pad2 (minute d) @ '':'' @ pad2 (second d) @
     (if microsecond d = 0 then [] else ''.'' @ pad6 (microsecond d)) @
     (case utcoffset d of
        None \<Rightarrow> []
      | Some off \<Rightarrow>
          (if off < 0 then ''-'' else ''+'') @
          pad2 (nat \<bar>off\<bar> div 60) @ '':'' @ pad2 (nat \<bar>off\<bar> mod 60))"

text \<open>
  A Python string is a sequence of code points. The type \<open>char\<close> holds the code points
  below 256, and this is the range of strings that the model covers.

  \<^verbatim>\<open>str.isspace\<close>, which is also the class \<^verbatim>\<open>\s\<close> of a regular expression over
  \<^verbatim>\<open>str\<close>: the blank, the controls 9 to 13 and 28 to 31, the next-line control 0x85
  and the no-break space 0xA0.
\<close>

definition is_space :: "char \<Rightarrow> bool" where
  "is_space c \<longleftrightarrow> c \<in> set [CHR '' '', CHR 0x09, CHR 0x0A, CHR 0x0B, CHR 0x0C, CHR 0x0D,
                            CHR 0x1C, CHR 0x1D, CHR 0x1E, CHR 0x1F, CHR 0x85, CHR 0xA0]"

definition strip :: "string \<Rightarrow> string" where
  "strip s = rev (dropWhile is_space (rev (dropWhile is_space s)))"

text \<open>
  \<^verbatim>\<open>str.lower()\<close>: the letters \<^verbatim>\<open>A\<close> to \<^verbatim>\<open>Z\<close> and the upper-case letters 0xC0 to
  0xDE (without the multiplication sign 0xD7) have a lower-case partner 32 places
  further on; every other code point below 256 is kept.
\<close>

definition upper_case :: string where
  "upper_case =
     ''ABCDEFGHIJKLMNOPQRSTUVWXYZ'' @
     [CHR 0xC0, CHR 0xC1, CHR 0xC2, CHR 0xC3, CHR 0xC4, CHR 0xC5, CHR 0xC6, CHR 0xC7,
      CHR 0xC8, CHR 0xC9, CHR 0xCA, CHR 0xCB, CHR 0xCC, CHR 0xCD, CHR 0xCE, CHR 0xCF,
      CHR 0xD0, CHR 0xD1, CHR 0xD2, CHR 0xD3, CHR 0xD4, CHR 0xD5, CHR 0xD6,
      CHR 0xD8, CHR 0xD9, CHR 0xDA, CHR 0xDB, CHR 0xDC, CHR 0xDD, CHR 0xDE]"

definition lower_case :: string where
  "lower_case =
     ''abcdefghijklmnopqrstuvwxyz'' @
     [CHR 0xE0, CHR 0xE1, CHR 0xE2, CHR 0xE3, CHR 0xE4, CHR 0xE5, CHR 0xE6, CHR 0xE7,
      CHR 0xE8, CHR 0xE9, CHR 0xEA, CHR 0xEB, CHR 0xEC, CHR 0xED, CHR 0xEE, CHR 0xEF,
      CHR 0xF0, CHR 0xF1, CHR 0xF2, CHR 0xF3, CHR 0xF4, CHR 0xF5, CHR 0xF6,
      CHR 0xF8, CHR 0xF9, CHR 0xFA, CHR 0xFB, CHR 0xFC, CHR 0xFD, CHR 0xFE]"

definition lower_char :: "char \<Rightarrow> char" where
  "lower_char c = (case map_of (zip upper_case lower_case) c of Some d \<Rightarrow> d | None \<Rightarrow> c)"

definition lower :: "string \<Rightarrow> string" where
  "lower s = map lower_char s"

section \<open>utils.py\<close>

text \<open>
  \<^verbatim>\<open>generate_message_id\<close>. The clock reading \<open>now\<close> is what \<^verbatim>\<open>datetime.now()\<close>
  returns during the call.
\<close>

definition generate_message_id :: "libs \<Rightarrow> datetime \<Rightarrow> message \<Rightarrow> string" where
  "generate_message_id L now m =
     (let ts_str =
            (case timestamp m of
               Some (TsDatetime d) \<Rightarrow> isoformat d
             | _ \<Rightarrow>
                 (case timestamp_str m of
                    Some (c # cs) \<Rightarrow> c # cs
                  | _ \<Rightarrow>
                      (case timestamp m of
                         Some (TsString s) \<Rightarrow> s
                       | _ \<Rightarrow> isoformat now)));
          text_hash = take 8 (md5_hexdigest L (case msg_text m of None \<Rightarrow> [] | Some t \<Rightarrow> t));
          raw_username = lower (strip (case username m of None \<Rightarrow> [] | Some u \<Rightarrow> u));
          uname = (if raw_username = [] \<or> raw_username \<in> set [''unknown'', ''none'', ''null'']
                   then ''bot_or_unknown'' else raw_username)
      in uname @ ''_'' @ ts_str @ ''_'' @ text_hash)"

text \<open>
  \<^verbatim>\<open>enrich_message(message, file_source="unknown")\<close>. The dict is updated in place
  and returned; the model returns the updated record.
\<close>

definition enrich_message :: "libs \<Rightarrow> datetime \<Rightarrow> message \<Rightarrow> string \<Rightarrow> message" where
  "enrich_message L now m fs =
     (let ts = (case timestamp m of
                  None \<Rightarrow> now
                | Some (TsString []) \<Rightarrow> now
                | Some (TsString (c # cs)) \<Rightarrow>
                    (case parse_date L (c # cs) of None \<Rightarrow> now | Some d \<Rightarrow> d)
                | Some (TsDatetime d) \<Rightarrow> d);
          m1 = m\<lparr>timestamp := Some (TsDatetime ts)\<rparr>;
          m2 = m1\<lparr>timestamp_str := Some (isoformat ts)\<rparr>;
          m3 = (case username m2 of
                  None \<Rightarrow> m2\<lparr>username := Some ''unknown''\<rparr>
                | Some [] \<Rightarrow> m2\<lparr>username := Some ''unknown''\<rparr>
                | Some (c # cs) \<Rightarrow> m2);
          m4 = m3\<lparr>file_source := Some (if fs = [] then ''unknown'' else fs)\<rparr>
      in m4\<lparr>message_id := Some (generate_message_id L now m4)\<rparr>)"

text \<open>Every caller in the repository passes the message alone.\<close>

definition enrich :: "libs \<Rightarrow> datetime \<Rightarrow> message \<Rightarrow> message" where
  "enrich L now m = enrich_message L now m ''unknown''"

section \<open>deduplication_manager.py\<close>

text \<open>
  The two backing stores as the deduplication manager sees them: the flag
  \<^verbatim>\<open>is_fresh_collection\<close> of the vector store (read with \<^verbatim>\<open>getattr\<close>, default
  \<open>False\<close>) and one batched existence query per store, which returns a set of
  ids or raises.
\<close>

record stores =
  is_fresh_collection :: bool
  db_existing :: "message list \<Rightarrow> exn + string set"
  vs_existing :: "message list \<Rightarrow> exn + string set"

text \<open>
  Console output is modelled where a claim speaks of logging; the other
  \<^verbatim>\<open>print\<close> calls are left out.
\<close>

datatype log_event =
    LogInconsistencies nat nat
  | LogExternalDetails nat nat
  | LogSaveInconsistency
  | LogSaveError

text \<open>
  The list comprehension \<^verbatim>\<open>[enrich_message(msg) for msg in messages]\<close>: the
  \<open>i\<close>-th call reads the clock as \<open>clock i\<close>.
\<close>

fun enrich_all :: "libs \<Rightarrow> (nat \<Rightarrow> datetime) \<Rightarrow> nat \<Rightarrow> message list \<Rightarrow> message list" where
  "enrich_all L clock i [] = []"
| "enrich_all L clock i (m # ms) = enrich L (clock i) m # enrich_all L clock (Suc i) ms"

text \<open>\<^verbatim>\<open>msg['message_id']\<close> raises \<^verbatim>\<open>KeyError\<close> when the key is absent.\<close>

definition get_message_id :: "message \<Rightarrow> exn + string" where
  "get_message_id m = (case message_id m of None \<Rightarrow> Inl KeyError | Some i \<Rightarrow> Inr i)"

text \<open>
  The loop of \<^verbatim>\<open>_remove_internal_duplicates\<close>, with the set \<^verbatim>\<open>seen_ids\<close> and the
  list \<^verbatim>\<open>unique_messages\<close> as accumulators.
\<close>

fun internal_loop :: "string set \<Rightarrow> message list \<Rightarrow> message list \<Rightarrow> exn + message list" where
  "internal_loop seen_ids unique_messages [] = Inr unique_messages"
| "internal_loop seen_ids unique_messages (msg # rest) =
     (case get_message_id msg of
        Inl e \<Rightarrow> Inl e
      | Inr msg_id \<Rightarrow>
          if msg_id \<notin> seen_ids
          then internal_loop (insert msg_id seen_ids) (unique_messages @ [msg]) rest
          else internal_loop seen_ids unique_messages rest)"

definition remove_internal_duplicates :: "message list \<Rightarrow> exn + message list" where
  "remove_internal_duplicates messages = internal_loop {} [] messages"

definition debug_inconsistencies :: "string set \<Rightarrow> string set \<Rightarrow> log_event list" where
  "debug_inconsistencies postgres_ids qdrant_ids =
     (let postgres_only = postgres_ids - qdrant_ids;
          qdrant_only = qdrant_ids - postgres_ids
      in if postgres_only \<noteq> {} \<or> qdrant_only \<noteq> {}
         then [LogInconsistencies (card postgres_only) (card qdrant_only)]
         else [])"

text \<open>
  The filtering loop of \<^verbatim>\<open>_remove_external_duplicates\<close>; the two counters are the
  entries \<^verbatim>\<open>'postgres'\<close> and \<^verbatim>\<open>'qdrant'\<close> of \<^verbatim>\<open>duplicate_details\<close>.
\<close>

fun external_loop ::
  "string set \<Rightarrow> string set \<Rightarrow> message list \<Rightarrow> nat \<times> nat \<Rightarrow> message list \<Rightarrow>
   exn + (message list \<times> nat \<times> nat)" where
  "external_loop pg qd new_messages (np, nq) [] = Inr (new_messages, np, nq)"
| "external_loop pg qd new_messages (np, nq) (msg # rest) =
     (case get_message_id msg of
        Inl e \<Rightarrow> Inl e
      | Inr mid \<Rightarrow>
          if mid \<notin> pg \<union> qd
          then external_loop pg qd (new_messages @ [msg]) (np, nq) rest
          else external_loop pg qd new_messages
                 (if mid \<in> pg then Suc np else np, if mid \<in> qd then Suc nq else nq) rest)"

text \<open>
  \<^verbatim>\<open>_remove_external_duplicates\<close>. Both queries are submitted to the executor;
  the result of the relational store is joined first.
\<close>

definition remove_external_duplicates ::
  "stores \<Rightarrow> message list \<Rightarrow> exn + (log_event list \<times> message list)" where
  "remove_external_duplicates S messages =
     (case db_existing S messages of
        Inl e \<Rightarrow> Inl e
      | Inr existing_ids_postgres \<Rightarrow>
          (case vs_existing S messages of
             Inl e \<Rightarrow> Inl e
           | Inr existing_ids_qdrant \<Rightarrow>
               (case external_loop existing_ids_postgres existing_ids_qdrant [] (0, 0) messages of
                  Inl e \<Rightarrow> Inl e
                | Inr (new_messages, np, nq) \<Rightarrow>
                    Inr (debug_inconsistencies existing_ids_postgres existing_ids_qdrant @
                         [LogExternalDetails np nq], new_messages))))"

text \<open>
  \<^verbatim>\<open>_simple_duplicate_filter\<close>: every message is enriched again, so its id is
  always present.
\<close>

fun simple_loop ::
  "libs \<Rightarrow> (nat \<Rightarrow> datetime) \<Rightarrow> nat \<Rightarrow> string set \<Rightarrow> message list \<Rightarrow> message list \<Rightarrow>
   exn + message list" where
  "simple_loop L clock i seen_ids new_messages [] = Inr new_messages"
| "simple_loop L clock i seen_ids new_messages (message # rest) =
     (let message' = enrich L (clock i) message
      in case get_message_id message' of
           Inl e \<Rightarrow> Inl e
         | Inr mid \<Rightarrow>
             if mid \<notin> seen_ids
             then simple_loop L clock (Suc i) (insert mid seen_ids) (new_messages @ [message']) rest
             else simple_loop L clock (Suc i) seen_ids new_messages rest)"

definition simple_duplicate_filter ::
  "libs \<Rightarrow> (nat \<Rightarrow> datetime) \<Rightarrow> message list \<Rightarrow> exn + message list" where
  "simple_duplicate_filter L clock messages = simple_loop L clock 0 {} [] messages"

text \<open>
  \<^verbatim>\<open>filter_new_messages\<close>. Enrichment updates the dicts of \<^verbatim>\<open>messages\<close> in place,
  so the fallback of the \<^verbatim>\<open>except\<close> branch, which is given \<^verbatim>\<open>messages\<close>, runs
  on the enriched messages; its clock readings come after the \<open>length messages\<close>
  readings of the first pass. An exception of the fallback itself is not caught.
\<close>

definition filter_new_messages ::
  "libs \<Rightarrow> (nat \<Rightarrow> datetime) \<Rightarrow> stores \<Rightarrow> message list \<Rightarrow> exn + (log_event list \<times> message list)" where
  "filter_new_messages L clock S messages =
     (let enriched_messages = enrich_all L clock 0 messages
      in if is_fresh_collection S then Inr ([], enriched_messages)
         else
           (case remove_internal_duplicates enriched_messages of
              Inr unique_messages \<Rightarrow>
                (case remove_external_duplicates S unique_messages of
                   Inr r \<Rightarrow> Inr r
                 | Inl e \<Rightarrow>
                     map_sum id (Pair [])
                       (simple_duplicate_filter L (\<lambda>i. clock (length messages + i)) enriched_messages))
            | Inl e \<Rightarrow>
                map_sum id (Pair [])
                  (simple_duplicate_filter L (\<lambda>i. clock (length messages + i)) enriched_messages)))"

section \<open>chatterino_parser.py\<close>

subsection \<open>The fragment of Python regular expressions the patterns use\<close>

text \<open>
  Every pattern of \<^verbatim>\<open>ChatterinoParser.patterns\<close> is a sequence of literal
  characters, capture groups without nesting, and quantified character classes:
  \<^verbatim>\<open>[0-9]{n}\<close>, \<^verbatim>\<open>[0-9]+\<close>, \<^verbatim>\<open>[^>]+\<close>, \<^verbatim>\<open>.+\<close>, \<^verbatim>\<open>Z?\<close>. \<open>Rep p lo hi\<close> is
  the class \<open>p\<close> repeated at least \<open>lo\<close> and at most \<open>hi\<close> times (\<open>None\<close>: no bound),
  greedily.
\<close>

datatype item =
    Lit char
  | Rep "char \<Rightarrow> bool" nat "nat option"
  | GroupOpen
  | GroupClose

text \<open>
  The backtracking of a greedy quantifier: the continuation \<open>k\<close> is tried on the
  counts \<open>n\<close>, \<open>n - 1\<close>, ... down to \<open>lo\<close>, and the first success wins.
\<close>

fun try_counts :: "(nat \<Rightarrow> 'a option) \<Rightarrow> nat \<Rightarrow> nat \<Rightarrow> 'a option" where
  "try_counts k lo n =
     (if n < lo then None
      else (case k n of
              Some r \<Rightarrow> Some r
            | None \<Rightarrow> (case n of 0 \<Rightarrow> None | Suc j \<Rightarrow> try_counts k lo j)))"

definition extend :: "string option \<Rightarrow> string \<Rightarrow> string option" where
  "extend cur cs = map_option (\<lambda>g. g @ cs) cur"

text \<open>
  \<^verbatim>\<open>re.match(pattern, line).groups()\<close>: the pattern is matched at the start of
  the string and need not consume all of it. \<open>cur\<close> is the text consumed so far
  inside the open group, \<open>caps\<close> the groups already closed.
\<close>

fun match_items :: "item list \<Rightarrow> string \<Rightarrow> string option \<Rightarrow> string list \<Rightarrow> string list option" where
  "match_items [] s cur caps = Some caps"
| "match_items (GroupOpen # its) s cur caps = match_items its s (Some []) caps"
| "match_items (GroupClose # its) s cur caps =
     (case cur of None \<Rightarrow> None | Some g \<Rightarrow> match_items its s None (caps @ [g]))"
| "match_items (Lit c # its) s cur caps =
     (case s of
        [] \<Rightarrow> None
      | x # xs \<Rightarrow> if x = c then match_items its xs (extend cur [x]) caps else None)"
| "match_items (Rep p lo hi # its) s cur caps =
     (let avail = length (takeWhile p s);
          most = (case hi of None \<Rightarrow> avail | Some h \<Rightarrow> min h avail)
      in try_counts (\<lambda>n. match_items its (drop n s) (extend cur (take n s)) caps) lo most)"

definition re_match :: "item list \<Rightarrow> string \<Rightarrow> string list option" where
  "re_match pattern line = match_items pattern line None []"

definition is_digit :: "char \<Rightarrow> bool" where
  "is_digit c \<longleftrightarrow> c \<in> set ''0123456789''"

text \<open>\<^verbatim>\<open>[0-9]{n}\<close>, \<^verbatim>\<open>X+\<close> for a class \<open>X\<close>, and the dot, which excludes the newline.\<close>

definition digits :: "nat \<Rightarrow> item" where
  "digits n = Rep is_digit n (Some n)"

definition one_or_more :: "(char \<Rightarrow> bool) \<Rightarrow> item" where
  "one_or_more p = Rep p 1 None"

definition dot :: "char \<Rightarrow> bool" where
  "dot c \<longleftrightarrow> c \<noteq> CHR 0x0A"

text \<open>\<^verbatim>\<open>[0-9]{4}-[0-9]{2}-[0-9]{2}\<close> and \<^verbatim>\<open>[0-9]{2}:[0-9]{2}:[0-9]{2}\<close>.\<close>

definition re_date :: "item list" where
  "re_date = [digits 4, Lit CHR ''-'', digits 2, Lit CHR ''-'', digits 2]"

definition re_time :: "item list" where
  "re_time = [digits 2, Lit CHR '':'', digits 2, Lit CHR '':'', digits 2]"

text \<open>
  The eight patterns, in the order of \<^verbatim>\<open>self.patterns\<close>. \<open>DATE\<close> and \<open>TIME\<close> stand for
  the two expressions above.
\<close>

text \<open>\<^verbatim>\<open>\[(DATE TIME)\] <([^>]+)> (.+)\<close>\<close>

definition pattern0 :: "item list" where
  "pattern0 =
     [Lit CHR ''['', GroupOpen] @ re_date @ [Lit CHR '' ''] @ re_time @
     [GroupClose, Lit CHR '']'', Lit CHR '' '', Lit CHR ''<'',
      GroupOpen, one_or_more (\<lambda>c. c \<noteq> CHR ''>''), GroupClose, Lit CHR ''>'', Lit CHR '' '',
      GroupOpen, one_or_more dot, GroupClose]"

text \<open>\<^verbatim>\<open>(DATE TIME) \[([^\]]+)\]: (.+)\<close>\<close>

definition pattern1 :: "item list" where
  "pattern1 =
     [GroupOpen] @ re_date @ [Lit CHR '' ''] @ re_time @
     [GroupClose, Lit CHR '' '', Lit CHR ''['',
      GroupOpen, one_or_more (\<lambda>c. c \<noteq> CHR '']''), GroupClose, Lit CHR '']'', Lit CHR '':'',
      Lit CHR '' '', GroupOpen, one_or_more dot, GroupClose]"

text \<open>\<^verbatim>\<open>(DATE TIME) ([^:]+): (.+)\<close>\<close>

definition pattern2 :: "item list" where
  "pattern2 =
     [GroupOpen] @ re_date @ [Lit CHR '' ''] @ re_time @
     [GroupClose, Lit CHR '' '',
      GroupOpen, one_or_more (\<lambda>c. c \<noteq> CHR '':''), GroupClose, Lit CHR '':'', Lit CHR '' '',
      GroupOpen, one_or_more dot, GroupClose]"

text \<open>\<^verbatim>\<open>\[(DATE TIME)\] ([^:]+): (.+)\<close>\<close>

definition pattern3 :: "item list" where
  "pattern3 =
     [Lit CHR ''['', GroupOpen] @ re_date @ [Lit CHR '' ''] @ re_time @
     [GroupClose, Lit CHR '']'', Lit CHR '' '',
      GroupOpen, one_or_more (\<lambda>c. c \<noteq> CHR '':''), GroupClose, Lit CHR '':'', Lit CHR '' '',
      GroupOpen, one_or_more dot, GroupClose]"

text \<open>\<^verbatim>\<open>\[(DATE"T"TIME"Z"?)\] ([^:]+): (.+)\<close>, the quoted letters being literal.\<close>

definition pattern4 :: "item list" where
  "pattern4 =
     [Lit CHR ''['', GroupOpen] @ re_date @ [Lit CHR ''T''] @ re_time @
     [Rep (\<lambda>c. c = CHR ''Z'') 0 (Some 1), GroupClose, Lit CHR '']'', Lit CHR '' '',
      GroupOpen, one_or_more (\<lambda>c. c \<noteq> CHR '':''), GroupClose, Lit CHR '':'', Lit CHR '' '',
      GroupOpen, one_or_more dot, GroupClose]"

text \<open>\<^verbatim>\<open>\[(TIME)\] ([^:]+): (.+)\<close>\<close>

definition pattern5 :: "item list" where
  "pattern5 =
     [Lit CHR ''['', GroupOpen] @ re_time @
     [GroupClose, Lit CHR '']'', Lit CHR '' '',
      GroupOpen, one_or_more (\<lambda>c. c \<noteq> CHR '':''), GroupClose, Lit CHR '':'', Lit CHR '' '',
      GroupOpen, one_or_more dot, GroupClose]"

text \<open>\<^verbatim>\<open>\[(DATE TIME\.[0-9]+)\] ([^:]+): (.+)\<close>\<close>

definition pattern6 :: "item list" where
  "pattern6 =
     [Lit CHR ''['', GroupOpen] @ re_date @ [Lit CHR '' ''] @ re_time @
     [Lit CHR ''.'', one_or_more is_digit, GroupClose, Lit CHR '']'', Lit CHR '' '',
      GroupOpen, one_or_more (\<lambda>c. c \<noteq> CHR '':''), GroupClose, Lit CHR '':'', Lit CHR '' '',
      GroupOpen, one_or_more dot, GroupClose]"

text \<open>\<^verbatim>\<open>(DATE TIME) ([^\s]+) (.+)\<close>\<close>

definition pattern7 :: "item list" where
  "pattern7 =
     [GroupOpen] @ re_date @ [Lit CHR '' ''] @ re_time @
     [GroupClose, Lit CHR '' '',
      GroupOpen, one_or_more (\<lambda>c. \<not> is_space c), GroupClose, Lit CHR '' '',
      GroupOpen, one_or_more dot, GroupClose]"

definition patterns :: "item list list" where
  "patterns = [pattern0, pattern1, pattern2, pattern3, pattern4, pattern5, pattern6, pattern7]"

subsection \<open>\<^verbatim>\<open>datetime.strptime\<close>\<close>

text \<open>
  The library function, for the directives of \<^verbatim>\<open>self.timestamp_formats\<close>. As in
  the library, a numeric field is one or two digits (\<^verbatim>\<open>%Y\<close>: four,
  \<^verbatim>\<open>%f\<close>: one to six, \<^verbatim>\<open>%d\<close>: also a space and a digit), a blank of the format
  matches a run of white space, letters match without regard to case, the whole string
  must be consumed, and the fields must form a valid date and time. Every failure is a
  \<^verbatim>\<open>ValueError\<close>.
\<close>

datatype directive = FY | Fm | Fd | FH | FM | FS | Ff | FBlank | FChar char

definition digit_val :: "char \<Rightarrow> nat" where
  "digit_val c = length (takeWhile (\<lambda>d. d \<noteq> c) ''0123456789'')"

definition number :: "string \<Rightarrow> nat" where
  "number ds = foldl (\<lambda>n c. 10 * n + digit_val c) 0 ds"

text \<open>The longest prefix of at most \<open>k\<close> digits, and the rest.\<close>

definition read_digits :: "nat \<Rightarrow> string \<Rightarrow> string \<times> string" where
  "read_digits k s = (let ds = takeWhile is_digit (take k s) in (ds, drop (length ds) s))"

record fields =
  f_year :: nat
  f_month :: nat
  f_day :: nat
  f_hour :: nat
  f_minute :: nat
  f_second :: nat
  f_fraction :: nat

text \<open>The defaults of the library: 1900-01-01 00:00:00.\<close>

definition default_fields :: fields where
  "default_fields =
     \<lparr>f_year = 1900, f_month = 1, f_day = 1, f_hour = 0, f_minute = 0, f_second = 0,
      f_fraction = 0\<rparr>"

text \<open>A field of one or two digits with a value between \<open>lo\<close> and \<open>hi\<close>.\<close>

definition read_field :: "nat \<Rightarrow> nat \<Rightarrow> string \<Rightarrow> (nat \<times> string) option" where
  "read_field lo hi s =
     (case read_digits 2 s of
        (ds, rest) \<Rightarrow>
          if ds \<noteq> [] \<and> lo \<le> number ds \<and> number ds \<le> hi then Some (number ds, rest) else None)"

fun scan :: "directive list \<Rightarrow> string \<Rightarrow> fields \<Rightarrow> fields option" where
  "scan [] s f = (if s = [] then Some f else None)"
| "scan (FY # ds) s f =
     (case read_digits 4 s of
        (y, rest) \<Rightarrow> if length y = 4 then scan ds rest (f\<lparr>f_year := number y\<rparr>) else None)"
| "scan (Fm # ds) s f =
     (case read_field 1 12 s of None \<Rightarrow> None | Some (n, rest) \<Rightarrow> scan ds rest (f\<lparr>f_month := n\<rparr>))"
| "scan (Fd # ds) s f =
     (case read_field 1 31 s of
        Some (n, rest) \<Rightarrow> scan ds rest (f\<lparr>f_day := n\<rparr>)
      | None \<Rightarrow>
          (case s of
             sp # c # rest \<Rightarrow>
               if sp = CHR '' '' \<and> is_digit c \<and> c \<noteq> CHR ''0''
               then scan ds rest (f\<lparr>f_day := digit_val c\<rparr>) else None
           | _ \<Rightarrow> None))"
| "scan (FH # ds) s f =
     (case read_field 0 23 s of None \<Rightarrow> None | Some (n, rest) \<Rightarrow> scan ds rest (f\<lparr>f_hour := n\<rparr>))"
| "scan (FM # ds) s f =
     (case read_field 0 59 s of None \<Rightarrow> None | Some (n, rest) \<Rightarrow> scan ds rest (f\<lparr>f_minute := n\<rparr>))"
| "scan (FS # ds) s f =
     (case read_field 0 61 s of None \<Rightarrow> None | Some (n, rest) \<Rightarrow> scan ds rest (f\<lparr>f_second := n\<rparr>))"
| "scan (Ff # ds) s f =
     (case read_digits 6 s of
        (fr, rest) \<Rightarrow>
          if fr = [] then None
          else scan ds rest (f\<lparr>f_fraction := number (fr @ replicate (6 - length fr) CHR ''0'')\<rparr>))"
| "scan (FBlank # ds) s f =
     (case s of
        [] \<Rightarrow> None
      | c # rest \<Rightarrow> if is_space c then scan ds (dropWhile is_space rest) f else None)"
| "scan (FChar x # ds) s f =
     (case s of
        [] \<Rightarrow> None
      | c # rest \<Rightarrow> if lower_char c = lower_char x then scan ds rest f else None)"

definition is_leap :: "nat \<Rightarrow> bool" where
  "is_leap y \<longleftrightarrow> y mod 4 = 0 \<and> (y mod 100 \<noteq> 0 \<or> y mod 400 = 0)"

definition days_in_month :: "nat \<Rightarrow> nat \<Rightarrow> nat" where
  "days_in_month y m =
     (if m = 2 then (if is_leap y then 29 else 28)
      else if m \<in> set [4, 6, 9, 11] then 30 else 31)"

text \<open>The checks of the \<^verbatim>\<open>datetime\<close> constructor.\<close>

definition make_datetime :: "fields \<Rightarrow> exn + datetime" where
  "make_datetime f =
     (if 1 \<le> f_year f \<and> f_year f \<le> 9999 \<and> 1 \<le> f_month f \<and> f_month f \<le> 12 \<and>
         1 \<le> f_day f \<and> f_day f \<le> days_in_month (f_year f) (f_month f) \<and>
         f_hour f \<le> 23 \<and> f_minute f \<le> 59 \<and> f_second f \<le> 59 \<and> f_fraction f \<le> 999999
      then Inr \<lparr>year = f_year f, month = f_month f, day = f_day f, hour = f_hour f,
                minute = f_minute f, second = f_second f, microsecond = f_fraction f,
                utcoffset = None\<rparr>
      else Inl ValueError)"

definition strptime :: "string \<Rightarrow> directive list \<Rightarrow> exn + datetime" where
  "strptime s fmt =
     (case scan fmt s default_fields of None \<Rightarrow> Inl ValueError | Some f \<Rightarrow> make_datetime f)"

subsection \<open>The parser\<close>

definition fmt_date :: "directive list" where
  "fmt_date = [FY, FChar CHR ''-'', Fm, FChar CHR ''-'', Fd]"

definition fmt_time :: "directive list" where
  "fmt_time = [FH, FChar CHR '':'', FM, FChar CHR '':'', FS]"

text \<open>
  \<^verbatim>\<open>self.timestamp_formats\<close>; the flag marks the format \<^verbatim>\<open>%H:%M:%S\<close>, which
  \<^verbatim>\<open>_parse_timestamp\<close> compares by name.
\<close>

definition timestamp_formats :: "(bool \<times> directive list) list" where
  "timestamp_formats =
     [(False, fmt_date @ [FBlank] @ fmt_time),
      (False, fmt_date @ [FChar CHR ''T''] @ fmt_time),
      (False, fmt_date @ [FChar CHR ''T''] @ fmt_time @ [FChar CHR ''Z'']),
      (True, fmt_time),
      (False, fmt_date @ [FBlank] @ fmt_time @ [FChar CHR ''.'', Ff])]"

text \<open>
  \<^verbatim>\<open>_parse_timestamp\<close>: the loop over the formats. A \<^verbatim>\<open>ValueError\<close> moves on to
  the next format, any other exception leaves the function. For the time-only
  format the date is the one of the clock.
\<close>

fun parse_timestamp_loop :: "datetime \<Rightarrow> string \<Rightarrow> (bool \<times> directive list) list \<Rightarrow> exn + datetime option" where
  "parse_timestamp_loop now ts_str [] = Inr None"
| "parse_timestamp_loop now ts_str ((time_only, fmt) # fmts) =
     (case strptime ts_str fmt of
        Inr t \<Rightarrow>
          if time_only
          then Inr (Some (t\<lparr>year := year now, month := month now, day := day now\<rparr>))
          else Inr (Some t)
      | Inl ValueError \<Rightarrow> parse_timestamp_loop now ts_str fmts
      | Inl e \<Rightarrow> Inl e)"

definition parse_timestamp :: "datetime \<Rightarrow> string \<Rightarrow> exn + datetime option" where
  "parse_timestamp now ts_str = parse_timestamp_loop now ts_str timestamp_formats"

text \<open>
  The loop of \<^verbatim>\<open>_parse_line\<close> over the patterns, \<open>i\<close> being the index of the first
  pattern of the list. \<open>None\<close>: no pattern gave a message. The counters of
  \<^verbatim>\<open>debug_stats\<close> are not modelled.
\<close>

fun pattern_loop :: "datetime \<Rightarrow> string \<Rightarrow> int \<Rightarrow> item list list \<Rightarrow> exn + message option" where
  "pattern_loop now line i [] = Inr None"
| "pattern_loop now line i (pattern # rest) =
     (case re_match pattern line of
        Some (ts_str # uname # txt # others) \<Rightarrow>
          (case parse_timestamp now ts_str of
             Inl e \<Rightarrow> Inl e
           | Inr (Some ts) \<Rightarrow>
               Inr (Some \<lparr>username = Some (strip uname),
                          timestamp = Some (TsDatetime ts),
                          timestamp_str = Some ts_str,
                          msg_text = Some (strip txt),
                          file_source = None,
                          message_id = None,
                          raw_line = Some line,
                          pattern_used = Some i,
                          line_number = None\<rparr>)
           | Inr None \<Rightarrow> pattern_loop now line (i + 1) rest)
      | _ \<Rightarrow> pattern_loop now line (i + 1) rest)"

text \<open>\<^verbatim>\<open>line.split(':', 1)[1]\<close> for a line that contains a colon.\<close>

definition after_colon :: "string \<Rightarrow> string" where
  "after_colon line = drop 1 (dropWhile (\<lambda>c. c \<noteq> CHR '':'') line)"

definition parse_line :: "datetime \<Rightarrow> bool \<Rightarrow> string \<Rightarrow> exn + message option" where
  "parse_line now debug_mode line =
     (case pattern_loop now line 0 patterns of
        Inl e \<Rightarrow> Inl e
      | Inr (Some m) \<Rightarrow> Inr (Some m)
      | Inr None \<Rightarrow>
          if debug_mode then Inr None
          else if CHR '':'' \<in> set line
          then Inr (Some \<lparr>username = Some ''bot_or_unknown'',
                           timestamp = Some (TsDatetime now),
                           timestamp_str = Some ''unknown'',
                           msg_text = Some (strip (after_colon line)),
                           file_source = None,
                           message_id = None,
                           raw_line = Some line,
                           pattern_used = Some (- 1),
                           line_number = None\<rparr>)
          else Inr None)"

section \<open>message_processor.py\<close>

text \<open>
  The verdict of the classifier. \<^verbatim>\<open>OllamaAnalyzer\<close> sets every key on every path
  (\<^verbatim>\<open>_finalize_analysis\<close>, \<^verbatim>\<open>_default_analysis\<close>), so the fields are total; the
  key \<^verbatim>\<open>'message_id'\<close> is the field \<open>analysis_id\<close>.

  The scores are Python floats. The model takes them as rationals, a decimal literal
  standing for the float it denotes: scores are only compared with literals, and
  rounding a literal to the nearest float keeps its order with every float.
\<close>

record analysis =
  toxicity_score :: rat
  spam_probability :: rat
  sentiment :: string
  categories :: "string list"
  requires_action :: bool
  action_type :: string
  reasoning :: string
  analysis_id :: "string option"

text \<open>The alert dict of \<^verbatim>\<open>MessageProcessor._create_alert\<close>.\<close>

record alert =
  alert_message_id :: "string option"
  alert_username :: string
  alert_text :: string
  alert_timestamp :: string
  alert_toxicity :: rat
  alert_spam_probability :: rat
  alert_action :: string
  alert_reason :: string
  alert_categories :: "string list"
  alert_severity :: string

text \<open>
  The collaborators of the processor: the analyzer and the two stores. Each call
  reads and changes the outside world \<open>'w\<close> and returns a value or raises.
  \<^verbatim>\<open>get_embedding\<close> returns a list of floats or \<^verbatim>\<open>None\<close>; \<^verbatim>\<open>add_message\<close> returns
  the point id, empty when nothing was written; \<^verbatim>\<open>save_analysis\<close> returns whether the
  row was inserted.
\<close>

record 'w services =
  analyze_message :: "message \<Rightarrow> 'w \<Rightarrow> (exn + analysis) \<times> 'w"
  get_embedding :: "string \<Rightarrow> 'w \<Rightarrow> (exn + rat list option) \<times> 'w"
  add_message :: "message \<Rightarrow> analysis \<Rightarrow> rat list \<Rightarrow> 'w \<Rightarrow> (exn + string) \<times> 'w"
  save_analysis :: "message \<Rightarrow> analysis \<Rightarrow> string \<Rightarrow> 'w \<Rightarrow> (exn + bool) \<times> 'w"

text \<open>
  What a run does to the stores and prints about it, in order: the calls of
  \<^verbatim>\<open>vector_store.add_message\<close> and \<^verbatim>\<open>db.save_analysis\<close> with the id of the
  analysis, and the log lines of the data model above.
\<close>

datatype effect =
    VectorStoreWrite "string option"
  | RelationalStoreWrite "string option" string
  | Logged log_event

definition streamer_username :: string where
  "streamer_username = ''niaghtmares''"

definition calculate_severity :: "analysis \<Rightarrow> string" where
  "calculate_severity a =
     (let toxicity = toxicity_score a; spam = spam_probability a
      in if toxicity \<ge> 0.8 \<or> spam \<ge> 0.9 then ''CRITICAL''
         else if toxicity \<ge> 0.6 \<or> spam \<ge> 0.7 then ''HIGH''
         else if toxicity \<ge> 0.4 \<or> spam \<ge> 0.5 then ''MEDIUM''
         else ''LOW'')"

text \<open>
  \<^verbatim>\<open>_create_alert\<close>: \<^verbatim>\<open>message['username']\<close>, \<^verbatim>\<open>message['text']\<close> and
  \<^verbatim>\<open>message['timestamp_str']\<close> raise \<^verbatim>\<open>KeyError\<close> when the key is absent.
\<close>

definition create_alert :: "message \<Rightarrow> analysis \<Rightarrow> exn + alert" where
  "create_alert m a =
     (case (username m, msg_text m, timestamp_str m) of
        (Some u, Some t, Some ts) \<Rightarrow>
          Inr \<lparr>alert_message_id = analysis_id a,
               alert_username = u,
               alert_text = t,
               alert_timestamp = ts,
               alert_toxicity = toxicity_score a,
               alert_spam_probability = spam_probability a,
               alert_action = action_type a,
               alert_reason = reasoning a,
               alert_categories = categories a,
               alert_severity = calculate_severity a\<rparr>
      | _ \<Rightarrow> Inl KeyError)"

text \<open>
  \<^verbatim>\<open>_save_with_verification\<close>: the vector store is written first; the relational
  store is written only when that returned a point id. Every exception is caught and
  logged.
\<close>

definition save_with_verification ::
  "'w services \<Rightarrow> message \<Rightarrow> analysis \<Rightarrow> rat list \<Rightarrow> 'w \<Rightarrow> (string \<times> effect list) \<times> 'w" where
  "save_with_verification S m a embedding w =
     (case add_message S m a embedding w of
        (Inl e, w1) \<Rightarrow> (([], [VectorStoreWrite (analysis_id a), Logged LogSaveError]), w1)
      | (Inr point_id, w1) \<Rightarrow>
          if point_id \<noteq> [] then
            (case save_analysis S m a point_id w1 of
               (Inl e, w2) \<Rightarrow>
                 (([], [VectorStoreWrite (analysis_id a),
                        RelationalStoreWrite (analysis_id a) point_id, Logged LogSaveError]), w2)
             | (Inr postgres_success, w2) \<Rightarrow>
                 ((point_id,
                   [VectorStoreWrite (analysis_id a),
                    RelationalStoreWrite (analysis_id a) point_id] @
                   (if \<not> postgres_success then [Logged LogSaveInconsistency] else [])), w2))
          else (([], [VectorStoreWrite (analysis_id a)]), w1))"

text \<open>
  The body of the loop of \<^verbatim>\<open>_process_single_batch\<close> for one message: the alert it
  appends, if any, the set \<^verbatim>\<open>alert_ids\<close> afterwards, the effects and the world. An
  exception anywhere in the body is caught by the handler of the loop, which goes on
  with the next message.
\<close>

definition process_message ::
  "libs \<Rightarrow> datetime \<Rightarrow> 'w services \<Rightarrow> message \<Rightarrow> string set \<Rightarrow> 'w \<Rightarrow>
   (alert option \<times> string set \<times> effect list) \<times> 'w" where
  "process_message L now S message0 alert_ids w =
     (let message = enrich L now message0 in
      case get_message_id message of
        Inl e \<Rightarrow> ((None, alert_ids, []), w)
      | Inr mid \<Rightarrow>
          (case username message of
             None \<Rightarrow> ((None, alert_ids, []), w)
           | Some [] \<Rightarrow> ((None, alert_ids, []), w)
           | Some (c # cs) \<Rightarrow>
               (case analyze_message S message w of
                  (Inl e, w1) \<Rightarrow> ((None, alert_ids, []), w1)
                | (Inr analysis0, w1) \<Rightarrow>
                    (let analysis = analysis0\<lparr>analysis_id := Some mid\<rparr> in
                     case msg_text message of
                       None \<Rightarrow> ((None, alert_ids, []), w1)
                     | Some txt \<Rightarrow>
                         (case get_embedding S txt w1 of
                            (Inl e, w2) \<Rightarrow> ((None, alert_ids, []), w2)
                          | (Inr None, w2) \<Rightarrow> ((None, alert_ids, []), w2)
                          | (Inr (Some []), w2) \<Rightarrow> ((None, alert_ids, []), w2)
                          | (Inr (Some (x # xs)), w2) \<Rightarrow>
                              (case save_with_verification S message analysis (x # xs) w2 of
                                 ((point_id, effects), w3) \<Rightarrow>
                                   if requires_action analysis \<and> mid \<notin> alert_ids \<and>
                                      lower (c # cs) \<noteq> streamer_username
                                   then
                                     (case create_alert message analysis of
                                        Inl e \<Rightarrow> ((None, alert_ids, effects), w3)
                                      | Inr al \<Rightarrow> ((Some al, insert mid alert_ids, effects), w3))
                                   else ((None, alert_ids, effects), w3)))))))"

text \<open>\<^verbatim>\<open>_process_single_batch\<close>; the \<open>i\<close>-th message of the run reads the clock as \<open>clock i\<close>.\<close>

fun process_single_batch ::
  "libs \<Rightarrow> (nat \<Rightarrow> datetime) \<Rightarrow> nat \<Rightarrow> 'w services \<Rightarrow> message list \<Rightarrow> string set \<Rightarrow> 'w \<Rightarrow>
   (alert list \<times> string set \<times> effect list) \<times> 'w" where
  "process_single_batch L clock i S [] alert_ids w = (([], alert_ids, []), w)"
| "process_single_batch L clock i S (message # batch) alert_ids w =
     (case process_message L (clock i) S message alert_ids w of
        ((al, alert_ids1, effects1), w1) \<Rightarrow>
          (case process_single_batch L clock (Suc i) S batch alert_ids1 w1 of
             ((batch_alerts, alert_ids2, effects2), w2) \<Rightarrow>
               ((case al of None \<Rightarrow> batch_alerts | Some a \<Rightarrow> a # batch_alerts,
                 alert_ids2, effects1 @ effects2), w2)))"

text \<open>
  The loop of \<^verbatim>\<open>process_messages_batch\<close> over the chunks of \<open>n\<close> messages, \<open>i\<close> being
  the number of messages handed out before: the set \<^verbatim>\<open>alert_ids\<close> of the run is
  passed from chunk to chunk.
\<close>

function chunk_loop ::
  "libs \<Rightarrow> (nat \<Rightarrow> datetime) \<Rightarrow> 'w services \<Rightarrow> nat \<Rightarrow> nat \<Rightarrow> message list \<Rightarrow> string set \<Rightarrow> 'w \<Rightarrow>
   (alert list \<times> string set \<times> effect list) \<times> 'w" where
  "chunk_loop L clock S n i messages alert_ids w =
     (if messages = [] \<or> n = 0 then (([], alert_ids, []), w)
      else
        (case process_single_batch L clock i S (take n messages) alert_ids w of
           ((batch_alerts, alert_ids1, effects1), w1) \<Rightarrow>
             (case chunk_loop L clock S n (i + n) (drop n messages) alert_ids1 w1 of
                ((alerts, alert_ids2, effects2), w2) \<Rightarrow>
                  ((batch_alerts @ alerts, alert_ids2, effects1 @ effects2), w2))))"
  by pat_completeness auto
termination
  by (relation "measure (\<lambda>(L, clock, S, n, i, messages, alert_ids, w). length messages)") auto

declare chunk_loop.simps [simp del]

text \<open>
  \<^verbatim>\<open>process_messages_batch\<close> with \<^verbatim>\<open>config.BATCH_SIZE\<close> as \<open>batch_size\<close>: a step of
  zero makes \<^verbatim>\<open>range\<close> raise \<^verbatim>\<open>ValueError\<close>, a negative step gives no chunk. The
  run starts with an empty \<^verbatim>\<open>alert_ids\<close>.
\<close>

definition process_messages_batch ::
  "libs \<Rightarrow> (nat \<Rightarrow> datetime) \<Rightarrow> 'w services \<Rightarrow> int \<Rightarrow> message list \<Rightarrow> 'w \<Rightarrow>
   exn + ((alert list \<times> effect list) \<times> 'w)" where
  "process_messages_batch L clock S batch_size messages w =
     (if batch_size = 0 then Inl ValueError
      else if batch_size < 0 then Inr (([], []), w)
      else (case chunk_loop L clock S (nat batch_size) 0 messages {} w of
              ((alerts, alert_ids, effects), w') \<Rightarrow> Inr ((alerts, effects), w')))"


section \<open>realtime_moderator.py\<close>


text \<open>
  The key \<^verbatim>\<open>f"{message['username']}_{message['timestamp'].isoformat()}"\<close>, which
  \<^verbatim>\<open>_quick_message_check\<close> and \<^verbatim>\<open>_process_message_batch_optimized\<close> compute for
  their membership tests.
\<close>

definition realtime_message_id :: "message \<Rightarrow> exn + string" where
  "realtime_message_id m =
     (case username m of
        None \<Rightarrow> Inl KeyError
      | Some u \<Rightarrow>
          (case timestamp m of
             None \<Rightarrow> Inl KeyError
           | Some (TsString s) \<Rightarrow> Inl AttributeError
           | Some (TsDatetime d) \<Rightarrow> Inr (u @ ''_'' @ isoformat d)))"


text \<open>
  \<^verbatim>\<open>DatabaseManager.get_existing_message_ids\<close>: the ids of the messages, computed by
  \<^verbatim>\<open>generate_message_id\<close>, that the table \<^verbatim>\<open>moderation_logs\<close> holds. \<open>stored\<close> is the
  set of ids in the table; a failed query returns the empty set, as an empty table
  does.
\<close>

definition db_get_existing_message_ids :: "libs \<Rightarrow> datetime \<Rightarrow> string set \<Rightarrow> message list \<Rightarrow> string set" where
  "db_get_existing_message_ids L now stored messages =
     (if messages = [] then {}
      else set (map (generate_message_id L now) messages) \<inter> stored)"


text \<open>The final check against the ids the relational store reported.\<close>

fun final_check :: "string set \<Rightarrow> message list \<Rightarrow> exn + message list" where
  "final_check existing_ids [] = Inr []"
| "final_check existing_ids (msg # rest) =
     (case realtime_message_id msg of
        Inl e \<Rightarrow> Inl e
      | Inr mid \<Rightarrow>
          (case final_check existing_ids rest of
             Inl e \<Rightarrow> Inl e
           | Inr final_messages \<Rightarrow>
               Inr (if mid \<notin> existing_ids then msg # final_messages else final_messages)))"



definition calculate_priority :: "analysis \<Rightarrow> string" where
  "calculate_priority a =
     (let toxicity = toxicity_score a; spam = spam_probability a
      in if toxicity > 0.8 \<or> spam > 0.9 then ''CRITICAL''
         else if toxicity > 0.6 \<or> spam > 0.7 then ''HIGH''
         else if toxicity > 0.4 \<or> spam > 0.5 then ''MEDIUM''
         else ''LOW'')"





subsection \<open>The file tailer\<close>









section \<open>Sample inputs\<close>

text \<open>
  Concrete values on which the theorems below are instantiated. The digest of
  \<open>sample_libs\<close> returns the MD5 digest of \<^verbatim>\<open>hello world\<close> for every text, and its
  date parser rejects every string.
\<close>

definition sample_libs :: libs where
  "sample_libs =
     \<lparr>md5_hexdigest = (\<lambda>s. ''5eb63bbbe01eeed093cb22bb8f5acdc3''),
      parse_date = (\<lambda>s. None)\<rparr>"

definition sample_now :: datetime where
  "sample_now =
     \<lparr>year = 2025, month = 6, day = 1, hour = 12, minute = 0, second = 0,
      microsecond = 0, utcoffset = None\<rparr>"

definition sample_time :: datetime where
  "sample_time =
     \<lparr>year = 2025, month = 5, day = 30, hour = 19, minute = 31, second = 23,
      microsecond = 0, utcoffset = None\<rparr>"

text \<open>
  What \<^verbatim>\<open>parse_file\<close> returns for the line
  \<^verbatim>\<open>[2025-05-30 19:31:23] <alice> hello world\<close> of the file \<^verbatim>\<open>chat.log\<close>.
\<close>

definition sample_message :: message where
  "sample_message =
     \<lparr>username = Some ''alice'',
      timestamp = Some (TsDatetime sample_time),
      timestamp_str = Some ''2025-05-30 19:31:23'',
      msg_text = Some ''hello world'',
      file_source = Some ''chat.log'',
      message_id = None,
      raw_line = Some ''[2025-05-30 19:31:23] <alice> hello world'',
      pattern_used = Some 0,
      line_number = Some 1\<rparr>"

definition sample_enriched :: message where
  "sample_enriched =
     sample_message
       \<lparr>timestamp_str := Some ''2025-05-30T19:31:23'',
        file_source := Some ''unknown'',
        message_id := Some ''alice_2025-05-30T19:31:23_5eb63bbb''\<rparr>"

definition fresh_stores :: stores where
  "fresh_stores =
     \<lparr>is_fresh_collection = True,
      db_existing = (\<lambda>ms. Inr {}),
      vs_existing = (\<lambda>ms. Inr {})\<rparr>"

text \<open>The vector store reports the sample id, the relational store reports nothing.\<close>

definition drifted_stores :: stores where
  "drifted_stores =
     \<lparr>is_fresh_collection = False,
      db_existing = (\<lambda>ms. Inr {}),
      vs_existing = (\<lambda>ms. Inr {''alice_2025-05-30T19:31:23_5eb63bbb''})\<rparr>"

definition empty_stores :: stores where
  "empty_stores =
     \<lparr>is_fresh_collection = False,
      db_existing = (\<lambda>ms. Inr {}),
      vs_existing = (\<lambda>ms. Inr {})\<rparr>"

text \<open>
  An analysis that asks for action, one whose toxicity is the literal \<^verbatim>\<open>0.8\<close>, and
  collaborators over a world without state: all working, the embedding service
  returning \<^verbatim>\<open>None\<close>, and the relational store refusing the row.
\<close>

definition flagged_analysis :: analysis where
  "flagged_analysis =
     \<lparr>toxicity_score = 0.85, spam_probability = 0.1, sentiment = ''negative'',
      categories = [''insult''], requires_action = True, action_type = ''timeout'',
      reasoning = ''insult'', analysis_id = Some ''alice_2025-05-30T19:31:23_5eb63bbb''\<rparr>"

definition threshold_analysis :: analysis where
  "threshold_analysis = flagged_analysis\<lparr>toxicity_score := 0.8, spam_probability := 0\<rparr>"

definition working_services :: "unit services" where
  "working_services =
     \<lparr>analyze_message = (\<lambda>m w. (Inr flagged_analysis, w)),
      get_embedding = (\<lambda>t w. (Inr (Some [1, 0]), w)),
      add_message = (\<lambda>m a e w. (Inr ''point-1'', w)),
      save_analysis = (\<lambda>m a p w. (Inr True, w))\<rparr>"

definition no_embedding_services :: "unit services" where
  "no_embedding_services = working_services\<lparr>get_embedding := (\<lambda>t w. (Inr None, w))\<rparr>"

definition failing_db_services :: "unit services" where
  "failing_db_services = working_services\<lparr>save_analysis := (\<lambda>m a p w. (Inr False, w))\<rparr>"

text \<open>The alert that the working collaborators raise for the sample message.\<close>

definition sample_alert :: alert where
  "sample_alert =
     \<lparr>alert_message_id = Some ''alice_2025-05-30T19:31:23_5eb63bbb'',
      alert_username = ''alice'',
      alert_text = ''hello world'',
      alert_timestamp = ''2025-05-30T19:31:23'',
      alert_toxicity = 0.85,
      alert_spam_probability = 0.1,
      alert_action = ''timeout'',
      alert_reason = ''insult'',
      alert_categories = [''insult''],
      alert_severity = ''CRITICAL''\<rparr>"

text \<open>
  A line whose timestamp names no date, and a log file that holds one line when the
  tailer has read it up to position 31 and to which three lines are appended, each
  with its terminator.
\<close>

definition malformed_line :: string where
  "malformed_line = ''[2025-13-45 19:31:23] <alice> hello: world''"





section \<open>Properties of enrichment\<close>

lemma sample_isoformat: "isoformat sample_time = ''2025-05-30T19:31:23''"
  by (simp add: isoformat_def sample_time_def pad2_def pad4_def digit_char_def)

lemma sample_enrich: "enrich sample_libs now sample_message = sample_enriched"
  by (simp add: enrich_def enrich_message_def generate_message_id_def Let_def sample_message_def
      sample_enriched_def sample_isoformat sample_libs_def lower_def lower_char_def upper_case_def lower_case_def strip_def
      is_space_def)

lemma file_source_enrich: "file_source (enrich L now m) = Some ''unknown''"
  by (simp add: enrich_def enrich_message_def Let_def)

lemma generate_message_id_frame:
  "timestamp a = Some (TsDatetime d) \<Longrightarrow> timestamp b = Some (TsDatetime d) \<Longrightarrow>
   msg_text a = msg_text b \<Longrightarrow> username a = username b \<Longrightarrow>
   generate_message_id L n a = generate_message_id L n' b"
  by (simp add: generate_message_id_def)

lemma enrich_message_shape:
  "\<exists>ts u m4. u \<noteq> [] \<and>
     m4 = m\<lparr>timestamp := Some (TsDatetime ts), timestamp_str := Some (isoformat ts),
            username := Some u, file_source := Some (if fs = [] then ''unknown'' else fs)\<rparr> \<and>
     enrich_message L now m fs = m4\<lparr>message_id := Some (generate_message_id L now m4)\<rparr>"
proof -
  define ts where "ts =
    (case timestamp m of
       None \<Rightarrow> now
     | Some (TsString []) \<Rightarrow> now
     | Some (TsString (c # cs)) \<Rightarrow> (case parse_date L (c # cs) of None \<Rightarrow> now | Some d \<Rightarrow> d)
     | Some (TsDatetime d) \<Rightarrow> d)"
  define u where "u = (case username m of None \<Rightarrow> ''unknown'' | Some [] \<Rightarrow> ''unknown'' | Some (c # cs) \<Rightarrow> c # cs)"
  define m4 where "m4 = m\<lparr>timestamp := Some (TsDatetime ts), timestamp_str := Some (isoformat ts),
            username := Some u, file_source := Some (if fs = [] then ''unknown'' else fs)\<rparr>"
  have u: "u \<noteq> []" by (simp add: u_def split: option.splits list.splits)
  have "(case username m of
           None \<Rightarrow> (m\<lparr>timestamp := Some (TsDatetime ts), timestamp_str := Some (isoformat ts)\<rparr>)\<lparr>username := Some ''unknown''\<rparr>
         | Some [] \<Rightarrow> (m\<lparr>timestamp := Some (TsDatetime ts), timestamp_str := Some (isoformat ts)\<rparr>)\<lparr>username := Some ''unknown''\<rparr>
         | Some (c # cs) \<Rightarrow> m\<lparr>timestamp := Some (TsDatetime ts), timestamp_str := Some (isoformat ts)\<rparr>)
        = m\<lparr>timestamp := Some (TsDatetime ts), timestamp_str := Some (isoformat ts), username := Some u\<rparr>"
    by (cases m) (simp add: u_def split: option.splits list.splits)
  then have "enrich_message L now m fs = m4\<lparr>message_id := Some (generate_message_id L now m4)\<rparr>"
    unfolding enrich_message_def Let_def ts_def [symmetric] m4_def by simp
  then show ?thesis using u m4_def by blast
qed

lemma enrich_message_twice:
  "enrich_message L now' (enrich_message L now m fs) fs = enrich_message L now m fs"
proof -
  from enrich_message_shape [where m = m and fs = fs and L = L and now = now] obtain ts u m4 where
    u: "u \<noteq> []" and
    m4: "m4 = m\<lparr>timestamp := Some (TsDatetime ts), timestamp_str := Some (isoformat ts),
            username := Some u, file_source := Some (if fs = [] then ''unknown'' else fs)\<rparr>" and
    e: "enrich_message L now m fs = m4\<lparr>message_id := Some (generate_message_id L now m4)\<rparr>"
    by blast
  obtain c cs where ccs: "u = c # cs" using u by (cases u) auto
  have "enrich_message L now' (m4\<lparr>message_id := x\<rparr>) fs =
        m4\<lparr>message_id := Some (generate_message_id L now m4)\<rparr>" for x
    unfolding enrich_message_def Let_def
    by (cases m) (auto simp add: m4 ccs intro!: generate_message_id_frame [of _ ts])
  then show ?thesis by (simp add: e)
qed

text \<open>
  C2. Enrichment is idempotent: enriching an enriched message again, at any later
  clock reading, returns the same message; in particular the \<open>message_id\<close> does not
  change. This holds for every value of the \<^verbatim>\<open>file_source\<close> argument, and so for the
  one-argument call that the repository uses.
\<close>

theorem enrich_idempotent:
  "enrich_message L now' (enrich_message L now m fs) fs = enrich_message L now m fs \<and>
   enrich L now' (enrich L now m) = enrich L now m \<and>
   message_id (enrich L now' (enrich L now m)) = message_id (enrich L now m)"
  unfolding enrich_def by (simp only: enrich_message_twice simp_thms)

text \<open>
  C10. The claim that enrichment keeps a \<open>file_source\<close> the message already carries
  fails on the code: \<^verbatim>\<open>enrich_message\<close> assigns its own argument, which every caller
  leaves at the default, so the file name set by the parser is replaced by
  \<^verbatim>\<open>unknown\<close>.
\<close>

theorem enrich_overwrites_file_source:
  "file_source sample_message = Some ''chat.log'' \<and>
   file_source (enrich sample_libs sample_now sample_message) = Some ''unknown''"
  by (simp add: sample_enrich) (simp add: sample_message_def sample_enriched_def)

section \<open>Properties of the deduplication manager\<close>

lemma message_id_enrich_message:
  "message_id (enrich_message L now m fs) \<noteq> None"
  by (simp add: enrich_message_def Let_def)

lemma enrich_all_ids: "m \<in> set (enrich_all L clock i ms) \<Longrightarrow> message_id m \<noteq> None"
proof (induction ms arbitrary: i)
  case Nil
  then show ?case by simp
next
  case (Cons a ms)
  then show ?case
    using message_id_enrich_message [of L "clock i" a "''unknown''"]
    by (auto simp: enrich_def)
qed

lemma internal_loop_first_occurrences:
  assumes "\<And>m. m \<in> set ms \<Longrightarrow> message_id m \<noteq> None"
  shows "\<exists>r. internal_loop seen acc ms = Inr (acc @ r) \<and>
             subseq r ms \<and>
             distinct (map message_id r) \<and>
             message_id ` set r = message_id ` set ms - Some ` seen \<and>
             (\<forall>pre m post. ms = pre @ m # post \<and> message_id m \<notin> Some ` seen \<and>
                 message_id m \<notin> message_id ` set pre \<longrightarrow> m \<in> set r)"
  using assms
proof (induction ms arbitrary: seen acc)
  case Nil
  then show ?case by simp
next
  case (Cons x ms)
  from Cons.prems obtain i where i: "message_id x = Some i" by fastforce
  have rest: "\<And>y. y \<in> set ms \<Longrightarrow> message_id y \<noteq> None" using Cons.prems by simp
  show ?case
  proof (cases "i \<in> seen")
    case True
    from Cons.IH [OF rest, of seen acc] obtain r where
      r: "internal_loop seen acc ms = Inr (acc @ r)" "subseq r ms" "distinct (map message_id r)"
         "message_id ` set r = message_id ` set ms - Some ` seen"
         "\<forall>pre m post. ms = pre @ m # post \<and> message_id m \<notin> Some ` seen \<and>
                 message_id m \<notin> message_id ` set pre \<longrightarrow> m \<in> set r"
      by blast
    have 1: "internal_loop seen acc (x # ms) = Inr (acc @ r)"
      using True i r(1) by (simp add: get_message_id_def)
    have 2: "subseq r (x # ms)" using r(2) by (rule list_emb_Cons)
    have 3: "message_id ` set r = message_id ` set (x # ms) - Some ` seen"
      using r(4) True i by auto
    have 4: "m \<in> set r"
      if "x # ms = pre @ m # post" "message_id m \<notin> Some ` seen" "message_id m \<notin> message_id ` set pre"
      for pre m post
    proof (cases pre)
      case Nil
      then have "m = x" using that(1) by simp
      then show ?thesis using that(2) True i by auto
    next
      case (Cons p pre')
      then have "ms = pre' @ m # post" "message_id m \<notin> message_id ` set pre'"
        using that(1,3) by auto
      then show ?thesis using r(5) that(2) by blast
    qed
    show ?thesis using 1 2 3 4 r(3) by blast
  next
    case False
    from Cons.IH [OF rest, of "insert i seen" "acc @ [x]"] obtain r where
      r: "internal_loop (insert i seen) (acc @ [x]) ms = Inr ((acc @ [x]) @ r)"
         "subseq r ms" "distinct (map message_id r)"
         "message_id ` set r = message_id ` set ms - Some ` insert i seen"
         "\<forall>pre m post. ms = pre @ m # post \<and> message_id m \<notin> Some ` insert i seen \<and>
                 message_id m \<notin> message_id ` set pre \<longrightarrow> m \<in> set r"
      by blast
    have 1: "internal_loop seen acc (x # ms) = Inr (acc @ (x # r))"
      using False i r(1) by (simp add: get_message_id_def)
    have 2: "subseq (x # r) (x # ms)" using r(2) by simp
    have 3: "distinct (map message_id (x # r))"
      using r(3) r(4) i by auto
    have 4: "message_id ` set (x # r) = message_id ` set (x # ms) - Some ` seen"
      using r(4) i False by auto
    have 5: "m \<in> set (x # r)"
      if "x # ms = pre @ m # post" "message_id m \<notin> Some ` seen" "message_id m \<notin> message_id ` set pre"
      for pre m post
    proof (cases pre)
      case Nil
      then show ?thesis using that(1) by simp
    next
      case (Cons p pre')
      then have d: "ms = pre' @ m # post" "message_id m \<notin> message_id ` set pre'" "p = x"
        "message_id m \<noteq> message_id x"
        using that(1,3) by auto
      then have "message_id m \<notin> Some ` insert i seen" using that(2) i by auto
      then show ?thesis using r(5) d(1,2) by auto
    qed
    show ?thesis using 1 2 3 4 5 by blast
  qed
qed

lemma remove_internal_duplicates_exact:
  assumes "\<And>m. m \<in> set ms \<Longrightarrow> message_id m \<noteq> None"
  shows "\<exists>u. remove_internal_duplicates ms = Inr u \<and>
             subseq u ms \<and>
             distinct (map message_id u) \<and>
             message_id ` set u = message_id ` set ms \<and>
             length u = card (message_id ` set ms) \<and>
             (\<forall>pre m post. ms = pre @ m # post \<and> message_id m \<notin> message_id ` set pre
                 \<longrightarrow> m \<in> set u)"
proof -
  from internal_loop_first_occurrences [OF assms, of ms "{}" "[]"] obtain r where
    r: "internal_loop {} [] ms = Inr r" "subseq r ms" "distinct (map message_id r)"
       "message_id ` set r = message_id ` set ms"
       "\<forall>pre m post. ms = pre @ m # post \<and> message_id m \<notin> message_id ` set pre \<longrightarrow> m \<in> set r"
    by auto
  have "length r = length (map message_id r)" by simp
  also have "\<dots> = card (set (map message_id r))" using distinct_card [OF r(3)] by simp
  also have "\<dots> = card (message_id ` set ms)" using r(4) by simp
  finally show ?thesis using r by (auto simp: remove_internal_duplicates_def)
qed

lemma external_loop_spec:
  assumes "\<And>m. m \<in> set ms \<Longrightarrow> message_id m \<noteq> None"
  shows "\<exists>np' nq'. external_loop pg qd acc (np, nq) ms =
           Inr (acc @ filter (\<lambda>m. case message_id m of None \<Rightarrow> False | Some i \<Rightarrow> i \<notin> pg \<union> qd) ms, np', nq')"
  using assms
proof (induction ms arbitrary: acc np nq)
  case Nil
  then show ?case by simp
next
  case (Cons m ms)
  from Cons.prems obtain i where i: "message_id m = Some i" by fastforce
  have rest: "\<And>x. x \<in> set ms \<Longrightarrow> message_id x \<noteq> None" using Cons.prems by simp
  show ?case
  proof (cases "i \<in> pg \<union> qd")
    case True
    then show ?thesis
      using Cons.IH [OF rest, of acc "if i \<in> pg then Suc np else np" "if i \<in> qd then Suc nq else nq"] i
      by (simp add: get_message_id_def)
  next
    case False
    then show ?thesis
      using Cons.IH [OF rest, of "acc @ [m]" np nq] i
      by (simp add: get_message_id_def)
  qed
qed

lemma sample_enrich_all:
  "enrich_all sample_libs clock 0 [sample_message, sample_message] = [sample_enriched, sample_enriched]"
  by (simp add: sample_enrich)

lemma sample_enriched_id: "message_id sample_enriched = Some ''alice_2025-05-30T19:31:23_5eb63bbb''"
  by (simp add: sample_enriched_def)

lemma sample_internal:
  "remove_internal_duplicates [sample_enriched, sample_enriched] = Inr [sample_enriched]"
  by (simp add: remove_internal_duplicates_def get_message_id_def sample_enriched_id)

text \<open>
  C3, as stated, fails: when the vector collection is flagged fresh,
  \<^verbatim>\<open>filter_new_messages\<close> returns before Tier 1, so a batch of two identical
  messages comes back with both, although Tier 1 would have kept one.
\<close>

theorem fresh_collection_skips_tier1:
  "is_fresh_collection fresh_stores \<and>
   filter_new_messages sample_libs (\<lambda>i. sample_now) fresh_stores [sample_message, sample_message] =
     Inr ([], [sample_enriched, sample_enriched]) \<and>
   remove_internal_duplicates [sample_enriched, sample_enriched] = Inr [sample_enriched]"
  by (simp add: filter_new_messages_def sample_enrich sample_internal fresh_stores_def)

text \<open>
  C3, amended. Every message is enriched first. A fresh collection returns all
  enriched messages: it skips Tier 1 and Tier 2. Otherwise Tier 1 runs on the
  enriched batch and never fails there. Its survivors are messages of the batch, in
  the order of the batch, with pairwise different \<open>message_id\<close>s, and every id of the
  batch is the id of a survivor, so their number is the number of distinct ids; the
  survivor for an id is the first message of the batch that carries it. Tier 2 then
  runs on the survivors of Tier 1 and, when the stores answer, its result is the
  result of \<^verbatim>\<open>filter_new_messages\<close>.
\<close>

theorem filter_new_messages_tiers:
  "(is_fresh_collection S \<longrightarrow>
      filter_new_messages L clock S ms = Inr ([], enrich_all L clock 0 ms)) \<and>
   (\<exists>u. remove_internal_duplicates (enrich_all L clock 0 ms) = Inr u \<and>
        subseq u (enrich_all L clock 0 ms) \<and>
        distinct (map message_id u) \<and>
        message_id ` set u = message_id ` set (enrich_all L clock 0 ms) \<and>
        length u = card (message_id ` set (enrich_all L clock 0 ms)) \<and>
        (\<forall>pre m post. enrich_all L clock 0 ms = pre @ m # post \<and>
            message_id m \<notin> message_id ` set pre \<longrightarrow> m \<in> set u) \<and>
        (\<not> is_fresh_collection S \<longrightarrow>
           (\<forall>r. remove_external_duplicates S u = Inr r \<longrightarrow>
                filter_new_messages L clock S ms = Inr r)))"
proof -
  obtain u where u: "remove_internal_duplicates (enrich_all L clock 0 ms) = Inr u"
      "subseq u (enrich_all L clock 0 ms)"
      "distinct (map message_id u)"
      "message_id ` set u = message_id ` set (enrich_all L clock 0 ms)"
      "length u = card (message_id ` set (enrich_all L clock 0 ms))"
      "\<forall>pre m post. enrich_all L clock 0 ms = pre @ m # post \<and>
            message_id m \<notin> message_id ` set pre \<longrightarrow> m \<in> set u"
    using remove_internal_duplicates_exact [of "enrich_all L clock 0 ms"] enrich_all_ids by blast
  have "filter_new_messages L clock S ms = Inr r"
    if "\<not> is_fresh_collection S" "remove_external_duplicates S u = Inr r" for r
    using that u(1) by (simp add: filter_new_messages_def)
  moreover have "filter_new_messages L clock S ms = Inr ([], enrich_all L clock 0 ms)"
    if "is_fresh_collection S"
    using that by (simp add: filter_new_messages_def)
  ultimately show ?thesis using u by blast
qed

lemma sample_external_drifted:
  "remove_external_duplicates drifted_stores [sample_enriched] = Inr ([LogInconsistencies 0 1, LogExternalDetails 0 1], [])"
  by (simp add: remove_external_duplicates_def drifted_stores_def get_message_id_def
      sample_enriched_id debug_inconsistencies_def)

theorem filter_new_messages_tiers_witness:
  "filter_new_messages sample_libs (\<lambda>i. sample_now) fresh_stores [sample_message, sample_message] =
     Inr ([], [sample_enriched, sample_enriched]) \<and>
   filter_new_messages sample_libs (\<lambda>i. sample_now) drifted_stores [sample_message, sample_message] =
     Inr ([LogInconsistencies 0 1, LogExternalDetails 0 1], [])"
proof -
  have f: "is_fresh_collection fresh_stores" by (simp add: fresh_stores_def)
  have d: "\<not> is_fresh_collection drifted_stores" by (simp add: drifted_stores_def)
  have 1: "filter_new_messages sample_libs (\<lambda>i. sample_now) fresh_stores [sample_message, sample_message] =
     Inr ([], [sample_enriched, sample_enriched])"
    using filter_new_messages_tiers [of fresh_stores sample_libs "\<lambda>i. sample_now" "[sample_message, sample_message]"] f
    by (simp add: sample_enrich)
  have 2: "filter_new_messages sample_libs (\<lambda>i. sample_now) drifted_stores [sample_message, sample_message] =
     Inr ([LogInconsistencies 0 1, LogExternalDetails 0 1], [])"
    using filter_new_messages_tiers [of drifted_stores sample_libs "\<lambda>i. sample_now" "[sample_message, sample_message]"] d
    by (simp add: sample_enrich sample_internal sample_external_drifted)
  show ?thesis using 1 2 by simp
qed

text \<open>
  C4. Tier 2 filters by the union of the ids the two stores report: when both
  queries answer, on a batch whose messages carry an id, the result is exactly the
  messages whose id is in neither answer, the call does not fail, and an
  inconsistency is logged if and only if the two answers differ, that is some id is
  in exactly one store.
\<close>

theorem remove_external_duplicates_union:
  assumes "db_existing S ms = Inr pg" and "vs_existing S ms = Inr qd"
    and "\<forall>m \<in> set ms. message_id m \<noteq> None"
  shows "\<exists>log. remove_external_duplicates S ms =
           Inr (log, filter (\<lambda>m. case message_id m of None \<Rightarrow> False | Some i \<Rightarrow> i \<notin> pg \<union> qd) ms) \<and>
         ((\<exists>a b. LogInconsistencies a b \<in> set log) \<longleftrightarrow> pg \<noteq> qd)"
proof -
  have "\<exists>np nq. external_loop pg qd [] (0, 0) ms =
          Inr ([] @ filter (\<lambda>m. case message_id m of None \<Rightarrow> False | Some i \<Rightarrow> i \<notin> pg \<union> qd) ms, np, nq)"
    by (rule external_loop_spec) (use assms(3) in blast)
  then obtain np nq where
    l: "external_loop pg qd [] (0, 0) ms =
          Inr (filter (\<lambda>m. case message_id m of None \<Rightarrow> False | Some i \<Rightarrow> i \<notin> pg \<union> qd) ms, np, nq)"
    by auto
  have r: "remove_external_duplicates S ms =
     Inr (debug_inconsistencies pg qd @ [LogExternalDetails np nq],
          filter (\<lambda>m. case message_id m of None \<Rightarrow> False | Some i \<Rightarrow> i \<notin> pg \<union> qd) ms)"
    by (simp add: remove_external_duplicates_def assms(1,2) l)
  have "(\<exists>a b. LogInconsistencies a b \<in> set (debug_inconsistencies pg qd @ [LogExternalDetails np nq]))
        \<longleftrightarrow> pg \<noteq> qd"
    by (auto simp: debug_inconsistencies_def Let_def)
  then show ?thesis using r by blast
qed

theorem remove_external_duplicates_union_witness:
  "remove_external_duplicates drifted_stores [sample_enriched] =
     Inr ([LogInconsistencies 0 1, LogExternalDetails 0 1], [])"
proof -
  have a: "db_existing drifted_stores [sample_enriched] = Inr {}"
    and b: "vs_existing drifted_stores [sample_enriched] = Inr {''alice_2025-05-30T19:31:23_5eb63bbb''}"
    by (simp_all add: drifted_stores_def)
  have c: "\<forall>m \<in> set [sample_enriched]. message_id m \<noteq> None"
    by (simp add: sample_enriched_id)
  from remove_external_duplicates_union [OF a b c] sample_external_drifted
  show ?thesis by simp
qed

section \<open>Properties of the alert severity and of the realtime key\<close>

lemma calculate_severity_thresholds:
  "calculate_severity a =
     (if toxicity_score a \<ge> 0.8 \<or> spam_probability a \<ge> 0.9 then ''CRITICAL''
      else if toxicity_score a \<ge> 0.6 \<or> spam_probability a \<ge> 0.7 then ''HIGH''
      else if toxicity_score a \<ge> 0.4 \<or> spam_probability a \<ge> 0.5 then ''MEDIUM''
      else ''LOW'')"
  by (simp add: calculate_severity_def Let_def)

text \<open>
  C6. The batch path compares with \<open>\<ge>\<close>, as the claim says. The realtime path compares
  with \<open>>\<close>: for a toxicity of exactly \<^verbatim>\<open>0.8\<close> (and no spam) \<^verbatim>\<open>_calculate_severity\<close>
  returns \<^verbatim>\<open>CRITICAL\<close> and \<^verbatim>\<open>_calculate_priority\<close> returns \<^verbatim>\<open>HIGH\<close>.
\<close>

theorem priority_strict_at_threshold:
  "toxicity_score threshold_analysis = 0.8 \<and>
   calculate_severity threshold_analysis = ''CRITICAL'' \<and>
   calculate_priority threshold_analysis = ''HIGH''"
  by (simp add: threshold_analysis_def flagged_analysis_def calculate_severity_def
      calculate_priority_def Let_def)

lemma realtime_message_id_text:
  "realtime_message_id (m\<lparr>msg_text := t\<rparr>) = realtime_message_id m"
  by (simp add: realtime_message_id_def split: option.splits)

lemma sample_generate:
  "generate_message_id sample_libs now sample_message = ''alice_2025-05-30T19:31:23_5eb63bbb''"
  by (simp add: generate_message_id_def Let_def sample_message_def sample_isoformat
      sample_libs_def lower_def lower_char_def upper_case_def lower_case_def strip_def is_space_def)

lemma sample_realtime_id:
  "realtime_message_id sample_message = Inr ''alice_2025-05-30T19:31:23''"
  by (simp add: realtime_message_id_def sample_message_def sample_isoformat)

text \<open>
  C1. The realtime path does not use the canonical \<open>message_id\<close> as its key: its key
  is the user name and the timestamp alone, so it is the same for two messages that
  differ in their text, and it differs from the id under which the relational store
  records the message. A message whose canonical id is already in the store
  therefore passes the realtime check against the store.
\<close>

theorem realtime_key_not_canonical:
  "generate_message_id sample_libs sample_now sample_message = ''alice_2025-05-30T19:31:23_5eb63bbb'' \<and>
   realtime_message_id sample_message = Inr ''alice_2025-05-30T19:31:23'' \<and>
   realtime_message_id (sample_message\<lparr>msg_text := Some ''goodbye''\<rparr>) = Inr ''alice_2025-05-30T19:31:23'' \<and>
   final_check
     (db_get_existing_message_ids sample_libs sample_now {''alice_2025-05-30T19:31:23_5eb63bbb''}
        [sample_message])
     [sample_message] = Inr [sample_message]"
  by (simp add: sample_generate realtime_message_id_text sample_realtime_id
      db_get_existing_message_ids_def)

section \<open>Properties of the batch processor\<close>

lemma enrich_fields:
  "\<exists>c cs mid ts.
     username (enrich L now m) = Some (c # cs) \<and>
     message_id (enrich L now m) = Some mid \<and>
     timestamp_str (enrich L now m) = Some ts \<and>
     msg_text (enrich L now m) = msg_text m"
proof -
  from enrich_message_shape [where m = m and fs = "''unknown''" and L = L and now = now]
  obtain ts u m4 where u: "u \<noteq> []"
    and m4: "m4 = m\<lparr>timestamp := Some (TsDatetime ts), timestamp_str := Some (isoformat ts),
            username := Some u, file_source := Some (if ''unknown'' = [] then ''unknown'' else ''unknown'')\<rparr>"
    and e: "enrich_message L now m ''unknown'' = m4\<lparr>message_id := Some (generate_message_id L now m4)\<rparr>"
    by blast
  obtain c cs where "u = c # cs" using u by (cases u) auto
  then show ?thesis by (simp add: enrich_def e m4)
qed

lemma create_alert_total:
  "username e = Some u \<Longrightarrow> msg_text e = Some t \<Longrightarrow> timestamp_str e = Some ts \<Longrightarrow>
   \<exists>al. create_alert e a = Inr al"
  by (simp add: create_alert_def)


lemma sample_enriched_fields:
  "username sample_enriched = Some ''alice''"
  "msg_text sample_enriched = Some ''hello world''"
  "timestamp_str sample_enriched = Some ''2025-05-30T19:31:23''"
  "message_id sample_enriched = Some ''alice_2025-05-30T19:31:23_5eb63bbb''"
  by (simp_all add: sample_enriched_def sample_message_def)

lemma lower_alice: "lower ''alice'' = ''alice''"
  by (simp add: lower_def lower_char_def upper_case_def lower_case_def)


lemma sample_message_text: "msg_text sample_message = Some ''hello world''"
  by (simp add: sample_message_def)








lemma sample_process_message:
  "process_message sample_libs now working_services sample_message ids () =
     (if ''alice_2025-05-30T19:31:23_5eb63bbb'' \<in> ids
      then ((None, ids,
             [VectorStoreWrite (Some ''alice_2025-05-30T19:31:23_5eb63bbb''),
              RelationalStoreWrite (Some ''alice_2025-05-30T19:31:23_5eb63bbb'') ''point-1'']), ())
      else ((Some sample_alert, insert ''alice_2025-05-30T19:31:23_5eb63bbb'' ids,
             [VectorStoreWrite (Some ''alice_2025-05-30T19:31:23_5eb63bbb''),
              RelationalStoreWrite (Some ''alice_2025-05-30T19:31:23_5eb63bbb'') ''point-1'']), ()))"
  by (simp add: process_message_def Let_def sample_enrich sample_enriched_fields get_message_id_def
      working_services_def flagged_analysis_def lower_alice streamer_username_def
      save_with_verification_def create_alert_def calculate_severity_def sample_alert_def)

lemma sample_process_single_batch:
  "fst (fst (process_single_batch sample_libs (\<lambda>i. sample_now) 0 working_services
               [sample_message, sample_message] {} ())) = [sample_alert]"
  by (simp add: sample_process_message)

lemma sample_process_messages_batch:
  "map_sum id (\<lambda>r. fst (fst r))
     (process_messages_batch sample_libs (\<lambda>i. sample_now) working_services 50
        [sample_message, sample_message] ()) = Inr [sample_alert]"
  by (simp add: process_messages_batch_def chunk_loop.simps sample_process_message)



text \<open>
  C7. For a message that was analysed and has a text: without a non-empty embedding
  nothing is written and the loop body leaves the world as the embedding call left
  it. With an embedding the vector store is written first; when that call raises or
  returns no point id the relational store is not written; when it returns a point id
  the relational store is written next, and a refusal or an exception there is logged
  and is the last effect: the world is the one the relational call left, with the
  vector write in place.
\<close>

theorem persistence_discipline:
  assumes an: "analyze_message S (enrich L now m) w = (Inr a0, w1)"
    and tx: "msg_text m = Some t"
    and em: "get_embedding S t w1 = (r, w2)"
  shows
    "((\<forall>x xs. r \<noteq> Inr (Some (x # xs))) \<longrightarrow>
        process_message L now S m alert_ids w = ((None, alert_ids, []), w2)) \<and>
     (\<forall>x xs. r = Inr (Some (x # xs)) \<longrightarrow>
        (\<exists>mid ar w3.
           message_id (enrich L now m) = Some mid \<and>
           add_message S (enrich L now m) (a0\<lparr>analysis_id := Some mid\<rparr>) (x # xs) w2 = (ar, w3) \<and>
           (case ar of
              Inl e \<Rightarrow>
                snd (snd (fst (process_message L now S m alert_ids w))) =
                  [VectorStoreWrite (Some mid), Logged LogSaveError] \<and>
                snd (process_message L now S m alert_ids w) = w3
            | Inr [] \<Rightarrow>
                snd (snd (fst (process_message L now S m alert_ids w))) =
                  [VectorStoreWrite (Some mid)] \<and>
                snd (process_message L now S m alert_ids w) = w3
            | Inr (p # ps) \<Rightarrow>
                (\<exists>sr w4.
                   save_analysis S (enrich L now m) (a0\<lparr>analysis_id := Some mid\<rparr>) (p # ps) w3 = (sr, w4) \<and>
                   snd (snd (fst (process_message L now S m alert_ids w))) =
                     [VectorStoreWrite (Some mid), RelationalStoreWrite (Some mid) (p # ps)] @
                     (case sr of
                        Inr True \<Rightarrow> []
                      | Inr False \<Rightarrow> [Logged LogSaveInconsistency]
                      | Inl e \<Rightarrow> [Logged LogSaveError]) \<and>
                   snd (process_message L now S m alert_ids w) = w4))))"
proof -
  define e where "e = enrich L now m"
  obtain c cs mid ts where
    u: "username e = Some (c # cs)" and i: "message_id e = Some mid" and
    s: "timestamp_str e = Some ts" and tx': "msg_text e = Some t"
    unfolding e_def using enrich_fields [of L now m] tx by auto
  have gi: "get_message_id e = Inr mid" by (simp add: get_message_id_def i)
  define a where "a = a0\<lparr>analysis_id := Some mid\<rparr>"
  have aid: "analysis_id a = Some mid" by (simp add: a_def)
  obtain al where al: "create_alert e a = Inr al"
    using create_alert_total [OF u tx' s] by blast
  note base = process_message_def Let_def e_def [symmetric] a_def [symmetric] gi u tx' an [unfolded e_def [symmetric]] em
  have 1: "process_message L now S m alert_ids w = ((None, alert_ids, []), w2)"
    if "\<forall>x xs. r \<noteq> Inr (Some (x # xs))"
    using that by (cases r) (simp_all add: base split: option.splits list.splits)
  have 2: "\<exists>mid ar w3.
           message_id e = Some mid \<and>
           add_message S e (a0\<lparr>analysis_id := Some mid\<rparr>) (x # xs) w2 = (ar, w3) \<and>
           (case ar of
              Inl e \<Rightarrow>
                snd (snd (fst (process_message L now S m alert_ids w))) =
                  [VectorStoreWrite (Some mid), Logged LogSaveError] \<and>
                snd (process_message L now S m alert_ids w) = w3
            | Inr [] \<Rightarrow>
                snd (snd (fst (process_message L now S m alert_ids w))) =
                  [VectorStoreWrite (Some mid)] \<and>
                snd (process_message L now S m alert_ids w) = w3
            | Inr (p # ps) \<Rightarrow>
                (\<exists>sr w4.
                   save_analysis S e (a0\<lparr>analysis_id := Some mid\<rparr>) (p # ps) w3 = (sr, w4) \<and>
                   snd (snd (fst (process_message L now S m alert_ids w))) =
                     [VectorStoreWrite (Some mid), RelationalStoreWrite (Some mid) (p # ps)] @
                     (case sr of
                        Inr True \<Rightarrow> []
                      | Inr False \<Rightarrow> [Logged LogSaveInconsistency]
                      | Inl e \<Rightarrow> [Logged LogSaveError]) \<and>
                   snd (process_message L now S m alert_ids w) = w4))"
    if r: "r = Inr (Some (x # xs))" for x xs
  proof -
    obtain ar w3 where ad: "add_message S e a (x # xs) w2 = (ar, w3)"
      by (cases "add_message S e a (x # xs) w2")
    have "case ar of
              Inl e \<Rightarrow>
                snd (snd (fst (process_message L now S m alert_ids w))) =
                  [VectorStoreWrite (Some mid), Logged LogSaveError] \<and>
                snd (process_message L now S m alert_ids w) = w3
            | Inr [] \<Rightarrow>
                snd (snd (fst (process_message L now S m alert_ids w))) =
                  [VectorStoreWrite (Some mid)] \<and>
                snd (process_message L now S m alert_ids w) = w3
            | Inr (p # ps) \<Rightarrow>
                (\<exists>sr w4.
                   save_analysis S e a (p # ps) w3 = (sr, w4) \<and>
                   snd (snd (fst (process_message L now S m alert_ids w))) =
                     [VectorStoreWrite (Some mid), RelationalStoreWrite (Some mid) (p # ps)] @
                     (case sr of
                        Inr True \<Rightarrow> []
                      | Inr False \<Rightarrow> [Logged LogSaveInconsistency]
                      | Inl e \<Rightarrow> [Logged LogSaveError]) \<and>
                   snd (process_message L now S m alert_ids w) = w4)"
    proof (cases ar)
      case (Inl x1)
      then show ?thesis
        by (simp add: base r save_with_verification_def ad aid al)
    next
      case (Inr pid)
      show ?thesis
      proof (cases pid)
        case Nil
        then show ?thesis
          by (simp add: base r save_with_verification_def ad aid al Inr)
      next
        case (Cons p ps)
        obtain sr w4 where sa: "save_analysis S e a (p # ps) w3 = (sr, w4)"
          by (cases "save_analysis S e a (p # ps) w3")
        show ?thesis
          by (cases sr) (simp_all add: base r save_with_verification_def ad aid al Inr Cons sa)
      qed
    qed
    then show ?thesis using i ad unfolding a_def by blast
  qed
  show ?thesis using 1 2 unfolding e_def by blast
qed


theorem persistence_discipline_witness:
  "snd (snd (fst (process_message sample_libs sample_now failing_db_services sample_message {} ()))) =
     [VectorStoreWrite (Some ''alice_2025-05-30T19:31:23_5eb63bbb''),
      RelationalStoreWrite (Some ''alice_2025-05-30T19:31:23_5eb63bbb'') ''point-1'',
      Logged LogSaveInconsistency] \<and>
   process_message sample_libs sample_now no_embedding_services sample_message {} () =
     ((None, {}, []), ())"
proof -
  have a1: "analyze_message failing_db_services (enrich sample_libs sample_now sample_message) () =
              (Inr flagged_analysis, ())"
    and e1: "get_embedding failing_db_services ''hello world'' () = (Inr (Some (1 # [0])), ())"
    by (simp_all add: failing_db_services_def working_services_def)
  have a2: "analyze_message no_embedding_services (enrich sample_libs sample_now sample_message) () =
              (Inr flagged_analysis, ())"
    and e2: "get_embedding no_embedding_services ''hello world'' () = (Inr None, ())"
    by (simp_all add: no_embedding_services_def working_services_def)
  have s1: "add_message failing_db_services m a e () = (Inr ''point-1'', ())"
    and s2: "save_analysis failing_db_services m a p () = (Inr False, ())" for m a e p
    by (simp_all add: failing_db_services_def working_services_def)
  from persistence_discipline [OF a1 sample_message_text e1, of "{}"]
  have "snd (snd (fst (process_message sample_libs sample_now failing_db_services sample_message {} ()))) =
     [VectorStoreWrite (Some ''alice_2025-05-30T19:31:23_5eb63bbb''),
      RelationalStoreWrite (Some ''alice_2025-05-30T19:31:23_5eb63bbb'') ''point-1'',
      Logged LogSaveInconsistency]"
    by (simp add: sample_enrich sample_enriched_fields s1 s2)
  moreover from persistence_discipline [OF a2 sample_message_text e2, of "{}"]
  have "process_message sample_libs sample_now no_embedding_services sample_message {} () =
     ((None, {}, []), ())"
    by simp
  ultimately show ?thesis by simp
qed

section \<open>Properties of the line parser\<close>

lemma strptime_raises_value_error: "strptime s fmt = Inl e \<Longrightarrow> e = ValueError"
  by (auto simp: strptime_def make_datetime_def split: option.splits if_splits)

lemma parse_timestamp_loop_returns: "\<exists>r. parse_timestamp_loop now s fmts = Inr r"
proof (induction fmts)
  case Nil
  then show ?case by simp
next
  case (Cons f fmts)
  obtain time_only fmt where f: "f = (time_only, fmt)" by (cases f)
  show ?case
  proof (cases "strptime s fmt")
    case (Inl e)
    then have "e = ValueError" by (rule strptime_raises_value_error)
    then show ?thesis using Cons.IH Inl by (simp add: f)
  next
    case (Inr t)
    then show ?thesis by (simp add: f)
  qed
qed

lemma parse_timestamp_returns: "\<exists>r. parse_timestamp now s = Inr r"
  by (simp add: parse_timestamp_def parse_timestamp_loop_returns)

lemma pattern_loop_returns: "\<exists>r. pattern_loop now line i ps = Inr r"
proof (induction ps arbitrary: i)
  case Nil
  then show ?case by simp
next
  case (Cons p ps)
  show ?case
  proof (cases "\<exists>a b c ds. re_match p line = Some (a # b # c # ds)")
    case True
    then obtain a b c ds where m: "re_match p line = Some (a # b # c # ds)" by blast
    obtain r where r: "parse_timestamp now a = Inr r" using parse_timestamp_returns by blast
    show ?thesis using Cons.IH [of "i + 1"] by (cases r) (simp_all add: m r)
  next
    case False
    then have "pattern_loop now line i (p # ps) = pattern_loop now line (i + 1) ps"
      by (auto split: option.splits list.splits)
    then show ?thesis using Cons.IH [of "i + 1"] by simp
  qed
qed

lemma parse_line_returns: "\<exists>r. parse_line now debug_mode line = Inr r"
proof -
  obtain r where r: "pattern_loop now line 0 patterns = Inr r"
    using pattern_loop_returns by blast
  show ?thesis by (cases r) (simp_all add: parse_line_def r)
qed

text \<open>
  C9. \<^verbatim>\<open>_parse_line\<close> returns a message or \<^verbatim>\<open>None\<close> for every string, every clock
  reading and both modes; it never raises, and neither does \<^verbatim>\<open>_parse_timestamp\<close>. A
  pattern that matches with a timestamp that no format accepts is passed over and the
  remaining patterns are tried. When no pattern gives a message, debug mode returns
  \<^verbatim>\<open>None\<close>; outside debug mode a line with a colon gives the message with user name
  \<^verbatim>\<open>bot_or_unknown\<close>, the current time, and the stripped text after the first colon,
  and a line without a colon gives \<^verbatim>\<open>None\<close>.
\<close>

theorem parse_line_never_raises:
  "(\<exists>r. parse_line now debug_mode line = Inr r) \<and>
   (\<exists>t. parse_timestamp now ts_str = Inr t) \<and>
   (re_match p line = Some (ts_str # uname # body # others) \<and> parse_timestamp now ts_str = Inr None \<longrightarrow>
      pattern_loop now line i (p # ps) = pattern_loop now line (i + 1) ps) \<and>
   (pattern_loop now line 0 patterns = Inr None \<longrightarrow>
      parse_line now True line = Inr None \<and>
      (CHR '':'' \<notin> set line \<longrightarrow> parse_line now False line = Inr None) \<and>
      (CHR '':'' \<in> set line \<longrightarrow>
         parse_line now False line =
           Inr (Some \<lparr>username = Some ''bot_or_unknown'',
                      timestamp = Some (TsDatetime now),
                      timestamp_str = Some ''unknown'',
                      msg_text = Some (strip (after_colon line)),
                      file_source = None,
                      message_id = None,
                      raw_line = Some line,
                      pattern_used = Some (- 1),
                      line_number = None\<rparr>)))"
  using parse_line_returns [of now debug_mode line] parse_timestamp_returns [of now ts_str]
  by (simp add: parse_line_def)

lemma malformed_line_match:
  "re_match pattern0 malformed_line = Some [''2025-13-45 19:31:23'', ''alice'', ''hello: world'']"
  by code_simp

lemma malformed_line_timestamp: "parse_timestamp sample_now ''2025-13-45 19:31:23'' = Inr None"
  by code_simp

lemma malformed_line_unmatched: "pattern_loop sample_now malformed_line 0 patterns = Inr None"
  by code_simp

lemma malformed_line_text: "strip (after_colon malformed_line) = ''31:23] <alice> hello: world''"
  by code_simp

lemma malformed_line_colon: "CHR '':'' \<in> set malformed_line"
  by (simp add: malformed_line_def)

theorem parse_line_never_raises_witness:
  "pattern_loop sample_now malformed_line 0 (pattern0 # tl patterns) =
     pattern_loop sample_now malformed_line 1 (tl patterns) \<and>
   parse_line sample_now True malformed_line = Inr None \<and>
   parse_line sample_now False malformed_line =
     Inr (Some \<lparr>username = Some ''bot_or_unknown'',
                timestamp = Some (TsDatetime sample_now),
                timestamp_str = Some ''unknown'',
                msg_text = Some ''31:23] <alice> hello: world'',
                file_source = None,
                message_id = None,
                raw_line = Some malformed_line,
                pattern_used = Some (- 1),
                line_number = None\<rparr>)"
  using parse_line_never_raises [where now = "sample_now" and line = "malformed_line"
      and ts_str = "''2025-13-45 19:31:23''" and p = "pattern0" and uname = "''alice''"
      and body = "''hello: world''" and others = "[]" and i = "0" and ps = "tl patterns"]
    malformed_line_match malformed_line_timestamp malformed_line_unmatched
    malformed_line_colon
  by (simp add: malformed_line_text)

section \<open>Properties of the file tailer\<close>



















end
